theory Spec2Isabelle
  imports Complex_Main
begin

section \<open>Numbers and errors\<close>

text \<open>
  The program computes with Python floats (the physical parameters, the initial
  conditions, the time span) and with NumPy float64 scalars (the components of the state
  array that the integrator hands to \<^verbatim>\<open>equations\<close>). Finite values are modelled as
  reals: rounding and overflow are not modelled. The two kinds of number differ in what a
  division by zero does, and the model keeps that difference:
  \<^item> a Python float divided by zero raises \<^verbatim>\<open>ZeroDivisionError\<close>;
  \<^item> a NumPy scalar divided by zero gives \<^verbatim>\<open>inf\<close> or \<^verbatim>\<open>nan\<close> (with a warning, no
    exception).
  The non-finite values are collapsed into one value \<open>NonFinite\<close>. With finite
  parameters every operation the program applies to a state component maps a non-finite
  operand to a non-finite result, so the collapse loses nothing the program can observe.
\<close>

datatype error = NotImplementedError | ValueError | ZeroDivisionError | DimensionMismatch

datatype npfloat = Num real | NonFinite

type_synonym state = "npfloat list"

text \<open>\<^verbatim>\<open>a / b\<close> on two Python floats.\<close>

definition py_div :: "real \<Rightarrow> real \<Rightarrow> error + real" where
  "py_div a b = (if b = 0 then Inl ZeroDivisionError else Inr (a / b))"

text \<open>\<^verbatim>\<open>a * x\<close> with a Python float \<open>a\<close> and a NumPy scalar \<open>x\<close>.\<close>

fun np_mul :: "real \<Rightarrow> npfloat \<Rightarrow> npfloat" where
  "np_mul a (Num x) = Num (a * x)"
| "np_mul a NonFinite = NonFinite"

text \<open>\<^verbatim>\<open>x - y\<close> and \<^verbatim>\<open>x + y\<close> on two NumPy scalars.\<close>

fun np_sub :: "npfloat \<Rightarrow> npfloat \<Rightarrow> npfloat" where
  "np_sub (Num x) (Num y) = Num (x - y)"
| "np_sub _ _ = NonFinite"

fun np_add :: "npfloat \<Rightarrow> npfloat \<Rightarrow> npfloat" where
  "np_add (Num x) (Num y) = Num (x + y)"
| "np_add _ _ = NonFinite"

text \<open>\<^verbatim>\<open>x / b\<close> with a NumPy scalar \<open>x\<close> and a Python float \<open>b\<close>: no exception.\<close>

fun np_div :: "npfloat \<Rightarrow> real \<Rightarrow> npfloat" where
  "np_div (Num x) b = (if b = 0 then NonFinite else Num (x / b))"
| "np_div NonFinite b = NonFinite"

text \<open>\<^verbatim>\<open>np.sin(x)\<close>.\<close>

fun np_sin :: "npfloat \<Rightarrow> npfloat" where
  "np_sin (Num x) = Num (sin x)"
| "np_sin NonFinite = NonFinite"

section \<open>The class hierarchy\<close>

text \<open>
  The base class \<^verbatim>\<open>MechanicalSystem\<close> and its three subclasses, one constructor each,
  with the arguments in the order of the Python \<^verbatim>\<open>__init__\<close>. Every instance carries
  \<^verbatim>\<open>initial_conditions\<close> and \<^verbatim>\<open>time_span\<close>.
\<close>

datatype system =
    MechanicalSystem (initial_conditions: "real list") (time_span: real)
  | SpringMassDamper real real real (initial_conditions: "real list") (time_span: real)
  | SimplePendulum real real (initial_conditions: "real list") (time_span: real)
  | RotationalInertia real real (initial_conditions: "real list") (time_span: real)

text \<open>
  The constructors of the source only store their arguments. They contain no
  \<^verbatim>\<open>raise\<close>, so the model has no failing branch.
\<close>

definition SpringMassDamper_init ::
  "real \<Rightarrow> real \<Rightarrow> real \<Rightarrow> real list \<Rightarrow> real \<Rightarrow> error + system" where
  "SpringMassDamper_init m c k ic ts = Inr (SpringMassDamper m c k ic ts)"

definition SimplePendulum_init :: "real \<Rightarrow> real \<Rightarrow> real list \<Rightarrow> real \<Rightarrow> error + system" where
  "SimplePendulum_init l g ic ts = Inr (SimplePendulum l g ic ts)"

definition RotationalInertia_init :: "real \<Rightarrow> real \<Rightarrow> real list \<Rightarrow> real \<Rightarrow> error + system" where
  "RotationalInertia_init I torque ic ts = Inr (RotationalInertia I torque ic ts)"

section \<open>The derivative functions\<close>

text \<open>
  \<^verbatim>\<open>x, v = y\<close> raises \<^verbatim>\<open>ValueError\<close> unless \<open>y\<close> has exactly two components.
  \<^verbatim>\<open>(-self.c * v - self.k * x) / self.m\<close> divides a NumPy scalar by a Python float.
\<close>

fun SpringMassDamper_equations :: "real \<Rightarrow> real \<Rightarrow> real \<Rightarrow> state \<Rightarrow> real \<Rightarrow> error + state" where
  "SpringMassDamper_equations m c k [x, v] t =
     Inr [v, np_div (np_sub (np_mul (- c) v) (np_mul k x)) m]"
| "SpringMassDamper_equations m c k y t = Inl ValueError"

text \<open>\<^verbatim>\<open>-(self.g / self.l) * np.sin(theta)\<close>: the quotient is a division of Python floats.\<close>

fun SimplePendulum_equations :: "real \<Rightarrow> real \<Rightarrow> state \<Rightarrow> real \<Rightarrow> error + state" where
  "SimplePendulum_equations l g [theta, omega] t =
     (case py_div g l of
        Inl e \<Rightarrow> Inl e
      | Inr q \<Rightarrow> Inr [omega, np_mul (- q) (np_sin theta)])"
| "SimplePendulum_equations l g y t = Inl ValueError"

text \<open>\<^verbatim>\<open>self.torque / self.I\<close> is a division of Python floats.\<close>

fun RotationalInertia_equations :: "real \<Rightarrow> real \<Rightarrow> state \<Rightarrow> real \<Rightarrow> error + state" where
  "RotationalInertia_equations I torque [theta, omega] t =
     (case py_div torque I of
        Inl e \<Rightarrow> Inl e
      | Inr q \<Rightarrow> Inr [omega, Num q])"
| "RotationalInertia_equations I torque y t = Inl ValueError"

text \<open>Method dispatch: the base class raises, each subclass overrides.\<close>

fun equations :: "system \<Rightarrow> state \<Rightarrow> real \<Rightarrow> error + state" where
  "equations (MechanicalSystem ic ts) y t = Inl NotImplementedError"
| "equations (SpringMassDamper m c k ic ts) y t = SpringMassDamper_equations m c k y t"
| "equations (SimplePendulum l g ic ts) y t = SimplePendulum_equations l g y t"
| "equations (RotationalInertia I torque ic ts) y t = RotationalInertia_equations I torque y t"

section \<open>Library routines the program calls\<close>

text \<open>Sequencing of computations that may raise: the first exception wins.\<close>

fun bindE :: "error + 'a \<Rightarrow> ('a \<Rightarrow> error + 'b) \<Rightarrow> error + 'b" where
  "bindE (Inl e) k = Inl e"
| "bindE (Inr x) k = k x"

text \<open>
  Modelled from the spec: \<^verbatim>\<open>np.linspace(start, stop, num)\<close> is NumPy's, not the
  repository's. Section 4.2 asks for \<open>num\<close> uniformly spaced times from \<open>start\<close> to
  \<open>stop\<close> inclusive; NumPy computes \<open>i * step + start\<close> with
  \<open>step = (stop - start) / (num - 1)\<close> and then stores \<open>stop\<close> itself in the last place.
\<close>

definition linspace :: "real \<Rightarrow> real \<Rightarrow> nat \<Rightarrow> real list" where
  "linspace start stop num =
     (let step = (stop - start) / real (num - 1);
          y = map (\<lambda>i. real i * step + start) [0..<num]
      in if num > 1 then y[num - 1 := stop] else y)"

type_synonym deriv = "state \<Rightarrow> real \<Rightarrow> error + state"

text \<open>
  The numerical method that carries the state from one sample time to the next is a
  parameter of the model. It sees the derivative only through calls: a method is a
  strategy that either is done with a result or asks for the derivative at a state and
  a time of its choice and goes on with the answer. \<open>run f q\<close> plays the strategy \<open>q\<close>
  against the derivative \<open>f\<close>; an exception of \<open>f\<close> ends the run and is passed on.
\<close>

datatype 'a query = Done 'a | Ask state real "state \<Rightarrow> 'a query"

primrec run :: "deriv \<Rightarrow> 'a query \<Rightarrow> error + 'a" where
  "run f (Done a) = Inr a"
| "run f (Ask y t k) = bindE (f y t) (\<lambda>d. run f (k d))"

text \<open>
  The state has a fixed dimension for the lifetime of an instance (section 3), that of the
  initial state. The integrator keeps it in an array of that many components, which the
  method overwrites: a method returns the contents of the array as a function of the
  index, and \<open>row n b\<close> is the row of \<open>n\<close> components the integrator copies from it.
\<close>

type_synonym buffer = "nat \<Rightarrow> npfloat"

definition row :: "nat \<Rightarrow> buffer \<Rightarrow> state" where
  "row n b = map b [0..<n]"

text \<open>
  \<open>step_to S w y t t'\<close> advances the state \<open>y\<close> at time \<open>t\<close> to time \<open>t'\<close>. A method may
  keep work data \<open>w\<close> (step size, order, history) between sample times; every call of
  the integrator starts from \<open>work0 S\<close>.
\<close>

record 'w solver =
  work0 :: 'w
  step_to :: "'w \<Rightarrow> state \<Rightarrow> real \<Rightarrow> real \<Rightarrow> ('w \<times> buffer) query"

text \<open>
  Modelled from the spec: the integration operation, which the source delegates to
  \<^verbatim>\<open>scipy.integrate.odeint\<close> (not part of the repository). Following sections 3, 4.2
  and 7:
  \<^item> every result of the derivative is checked against the dimension of the initial
    state, and a mismatch fails at once (\<open>checked\<close>);
  \<^item> the initial state is recorded at the first sample time, then the state is advanced
    across each interval between sample times and recorded (\<open>advance\<close>);
  \<^item> an exception of the derivative aborts the integration and reaches the caller.
  Where there is nothing to integrate the library evaluates no derivative: across an
  interval of length zero the state is recorded as it is, and for an initial state without
  components every row is empty.
\<close>

definition checked :: "nat \<Rightarrow> deriv \<Rightarrow> deriv" where
  "checked n func y t =
     bindE (func y t) (\<lambda>d. if length d = n then Inr d else Inl DimensionMismatch)"

fun advance ::
  "'w solver \<Rightarrow> deriv \<Rightarrow> nat \<Rightarrow> 'w \<Rightarrow> state \<Rightarrow> real \<Rightarrow> real list \<Rightarrow> error + state list" where
  "advance S f n w y t [] = Inr []"
| "advance S f n w y t (t' # ts) =
     (if t' = t then bindE (advance S f n w y t' ts) (\<lambda>rows. Inr (y # rows))
      else bindE (run f (step_to S w y t t')) (\<lambda>(w', b).
           bindE (advance S f n w' (row n b) t' ts) (\<lambda>rows. Inr (row n b # rows))))"

fun odeint :: "'w solver \<Rightarrow> deriv \<Rightarrow> real list \<Rightarrow> real list \<Rightarrow> error + state list" where
  "odeint S func y0 [] = Inr []"
| "odeint S func y0 (t0 # ts) =
     (let n = length y0; y = map Num y0
      in if n = 0 then Inr (y # map (\<lambda>t. []) ts)
         else bindE (advance S (checked n func) n (work0 S) y t0 ts)
                (\<lambda>rows. Inr (y # rows)))"

section \<open>Simulation\<close>

text \<open>
  \<^verbatim>\<open>simulate\<close> of the base class, inherited by every subclass: 1000 sample times from 0
  to \<^verbatim>\<open>self.time_span\<close>, the integration of \<^verbatim>\<open>self.equations\<close> from
  \<^verbatim>\<open>self.initial_conditions\<close>, and the pair of both as result.
\<close>

definition simulate :: "'w solver \<Rightarrow> system \<Rightarrow> error + (real list \<times> state list)" where
  "simulate S self =
     (let time_points = linspace 0 (time_span self) 1000
      in bindE (odeint S (equations self) (initial_conditions self) time_points)
           (\<lambda>solution. Inr (time_points, solution)))"

section \<open>A reference solver\<close>

text \<open>
  One classical Runge-Kutta step of fourth order per sample interval, the accuracy class
  section 4.2 names: four calls of the derivative. It keeps no work data.
  \<open>axpy h d y\<close> is \<open>y + h * d\<close> on vectors.
\<close>

definition axpy :: "real \<Rightarrow> state \<Rightarrow> state \<Rightarrow> state" where
  "axpy h d y = map2 (\<lambda>yi di. np_add yi (np_mul h di)) y d"

definition rk4_step :: "unit \<Rightarrow> state \<Rightarrow> real \<Rightarrow> real \<Rightarrow> (unit \<times> buffer) query" where
  "rk4_step w y t t' =
     (let h = t' - t
      in Ask y t (\<lambda>k1.
         Ask (axpy (h / 2) k1 y) (t + h / 2) (\<lambda>k2.
         Ask (axpy (h / 2) k2 y) (t + h / 2) (\<lambda>k3.
         Ask (axpy h k3 y) (t + h) (\<lambda>k4.
         Done (w, nth (axpy (h / 6) k1 (axpy (h / 3) k2
                         (axpy (h / 3) k3 (axpy (h / 6) k4 y))))))))))"

definition rk4 :: "unit solver" where
  "rk4 = \<lparr>work0 = (), step_to = rk4_step\<rparr>"

section \<open>The driver script\<close>

text \<open>The three instances the main script builds.\<close>

definition spring_mass_damper :: system where
  "spring_mass_damper = SpringMassDamper 1 (1/2) 2 [1, 0] 20"

definition simple_pendulum :: system where
  "simple_pendulum = SimplePendulum 1 (981/100) [pi / 4, 0] 20"

definition rotational_inertia :: system where
  "rotational_inertia = RotationalInertia 1 1 [0, 0] 20"

section \<open>Auxiliary facts\<close>

subsection \<open>Sequencing\<close>

lemma bindE_Inr_iff: "bindE m k = Inr r \<longleftrightarrow> (\<exists>x. m = Inr x \<and> k x = Inr r)"
  by (cases m) auto

subsection \<open>Sample times\<close>

lemma linspace_eq:
  "linspace 0 b (Suc n) = map (\<lambda>i. real i * (b / real n)) [0..<Suc n]"
proof (cases "n = 0")
  case True
  then show ?thesis by (simp add: linspace_def)
next
  case False
  have "(map (\<lambda>i. real i * (b / real n)) [0..<Suc n])[n := b] =
      map (\<lambda>i. real i * (b / real n)) [0..<Suc n]"
    using False by (intro nth_equalityI) (auto simp: nth_list_update nth_append simp del: upt_Suc)
  then show ?thesis using False by (simp add: linspace_def Let_def del: upt_Suc)
qed

lemma linspace_length: "length (linspace a b n) = n"
  by (simp add: linspace_def Let_def)

lemma linspace_ne: "linspace 0 b (Suc n) = 0 # tl (linspace 0 b (Suc n))"
  by (simp add: linspace_eq upt_conv_Cons del: upt_Suc)

lemma linspace_1000_Cons: "linspace 0 b 1000 = 0 # tl (linspace 0 b 1000)"
  using linspace_ne [of b 999] by simp

lemma linspace_1000_nth:
  "i < 1000 \<Longrightarrow> linspace 0 b 1000 ! i = real i * (b / 999)"
  using linspace_eq [of b 999] by (simp del: upt_Suc)




subsection \<open>The recording loop\<close>

lemma odeint_first:
  "odeint S func y0 ts = Inr sol \<Longrightarrow> ts \<noteq> [] \<Longrightarrow> \<exists>rows. sol = map Num y0 # rows"
  by (cases ts) (auto simp: Let_def bindE_Inr_iff split: if_splits)

lemma length_row: "length (row n b) = n"
  by (simp add: row_def)

lemma advance_rows:
  "length y = n \<Longrightarrow> advance S f n w y t ts = Inr rows \<Longrightarrow>
   length rows = length ts \<and> (\<forall>r\<in>set rows. length r = n)"
proof (induction ts arbitrary: w y t rows)
  case Nil
  then show ?case by simp
next
  case (Cons t' ts)
  show ?case
  proof (cases "t' = t")
    case True
    with Cons.prems(2) obtain rest where
      "advance S f n w y t' ts = Inr rest" "rows = y # rest"
      by (auto simp: bindE_Inr_iff)
    with Cons.IH [OF Cons.prems(1)] Cons.prems(1) show ?thesis by auto
  next
    case False
    with Cons.prems(2) obtain w' b rest where
      "advance S f n w' (row n b) t' ts = Inr rest" "rows = row n b # rest"
      by (auto simp: bindE_Inr_iff)
    with Cons.IH [OF length_row] show ?thesis by (auto simp: length_row)
  qed
qed

lemma odeint_rows:
  assumes "odeint S func y0 ts = Inr sol"
  shows "length sol = length ts \<and> (\<forall>r\<in>set sol. length r = length y0)"
proof (cases ts)
  case Nil
  with assms show ?thesis by simp
next
  case (Cons t0 rest)
  show ?thesis
  proof (cases "y0 = []")
    case True
    with assms Cons show ?thesis by auto
  next
    case False
    with assms Cons obtain rows where
      adv: "advance S (checked (length y0) func) (length y0) (work0 S) (map Num y0) t0 rest = Inr rows"
      and sol: "sol = map Num y0 # rows"
      by (auto simp: Let_def bindE_Inr_iff)
    from advance_rows [OF _ adv] sol Cons show ?thesis by simp
  qed
qed




subsection \<open>Dimensions of the derivative\<close>

lemma SpringMassDamper_equations_dim:
  "SpringMassDamper_equations m c k y t = Inr d \<Longrightarrow> length y = 2 \<and> length d = 2"
  by (cases "(m, c, k, y, t)" rule: SpringMassDamper_equations.cases) auto

lemma SimplePendulum_equations_dim:
  "SimplePendulum_equations l g y t = Inr d \<Longrightarrow> length y = 2 \<and> length d = 2"
  by (cases "(l, g, y, t)" rule: SimplePendulum_equations.cases) (auto split: sum.splits)

lemma RotationalInertia_equations_dim:
  "RotationalInertia_equations I torque y t = Inr d \<Longrightarrow> length y = 2 \<and> length d = 2"
  by (cases "(I, torque, y, t)" rule: RotationalInertia_equations.cases) (auto split: sum.splits)

lemma equations_dim:
  "equations self y t = Inr d \<Longrightarrow> length y = 2 \<and> length d = 2"
  by (cases self)
     (simp_all add: SpringMassDamper_equations_dim SimplePendulum_equations_dim
        RotationalInertia_equations_dim)

subsection \<open>A derivative that always raises\<close>



subsection \<open>The reference solver returns\<close>

lemma length_axpy: "length d = n \<Longrightarrow> length y = n \<Longrightarrow> length (axpy h d y) = n"
  by (simp add: axpy_def)

lemma row_nth: "length ys = n \<Longrightarrow> row n (nth ys) = ys"
  by (auto simp: row_def map_nth)

lemma rk4_step_returns:
  assumes f: "\<forall>z s. length z = n \<longrightarrow> (\<exists>d. f z s = Inr d \<and> length d = n)"
    and y: "length y = n"
  shows "\<exists>b. run f (rk4_step w y t t') = Inr (w, b)"
proof -
  let ?h = "t' - t"
  from f y obtain k1 where k1: "f y t = Inr k1" "length k1 = n" by blast
  have "length (axpy (?h / 2) k1 y) = n" using k1 y by (simp add: length_axpy)
  with f obtain k2 where k2: "f (axpy (?h / 2) k1 y) (t + ?h / 2) = Inr k2" "length k2 = n"
    by blast
  have "length (axpy (?h / 2) k2 y) = n" using k2 y by (simp add: length_axpy)
  with f obtain k3 where k3: "f (axpy (?h / 2) k2 y) (t + ?h / 2) = Inr k3" "length k3 = n"
    by blast
  have "length (axpy ?h k3 y) = n" using k3 y by (simp add: length_axpy)
  with f obtain k4 where k4: "f (axpy ?h k3 y) (t + ?h) = Inr k4" "length k4 = n"
    by blast
  show ?thesis
    using k1 k2 k3 k4 by (simp add: rk4_step_def Let_def)
qed

lemma advance_rk4_returns:
  assumes f: "\<forall>z s. length z = n \<longrightarrow> (\<exists>d. f z s = Inr d \<and> length d = n)"
  shows "length y = n \<Longrightarrow> \<exists>rows. advance rk4 f n w y t ts = Inr rows"
proof (induction ts arbitrary: y t)
  case Nil
  then show ?case by simp
next
  case (Cons t' ts)
  show ?case
  proof (cases "t' = t")
    case True
    from Cons.IH [OF Cons.prems] obtain rows where "advance rk4 f n w y t' ts = Inr rows"
      by blast
    with True show ?thesis by simp
  next
    case False
    from rk4_step_returns [OF f Cons.prems] obtain b where
      st: "run f (rk4_step w y t t') = Inr (w, b)" by blast
    from Cons.IH [OF length_row] obtain rows where
      "advance rk4 f n w (row n b) t' ts = Inr rows" by blast
    with st False show ?thesis by (simp add: rk4_def)
  qed
qed

lemma simulate_rk4_returns:
  assumes "\<forall>z s. length z = 2 \<longrightarrow> (\<exists>d. equations self z s = Inr d)"
    and "length (initial_conditions self) = 2"
  shows "\<exists>solution. simulate rk4 self = Inr (linspace 0 (time_span self) 1000, solution)"
proof -
  let ?f = "checked 2 (equations self)"
  have f: "\<forall>z s. length z = 2 \<longrightarrow> (\<exists>d. ?f z s = Inr d \<and> length d = 2)"
  proof (intro allI impI)
    fix z :: state and s :: real
    assume "length z = 2"
    with assms(1) obtain d where d: "equations self z s = Inr d" by blast
    then have "length d = 2" using equations_dim by blast
    with d show "\<exists>d. ?f z s = Inr d \<and> length d = 2" by (simp add: checked_def)
  qed
  obtain rest where ts: "linspace 0 (time_span self) 1000 = 0 # rest"
    using linspace_1000_Cons by blast
  have y0: "length (map Num (initial_conditions self)) = 2" using assms(2) by simp
  from advance_rk4_returns [OF f y0] obtain rows where
    "advance rk4 ?f 2 () (map Num (initial_conditions self)) 0 rest = Inr rows" by blast
  then show ?thesis
    by (simp add: simulate_def ts assms(2) rk4_def)
qed

lemma SpringMassDamper_total:
  "length z = 2 \<Longrightarrow> \<exists>d. equations (SpringMassDamper m c k ic ts) z s = Inr d"
  by (cases "(m, c, k, z, s)" rule: SpringMassDamper_equations.cases) auto

lemma SimplePendulum_total:
  "l \<noteq> 0 \<Longrightarrow> length z = 2 \<Longrightarrow> \<exists>d. equations (SimplePendulum l g ic ts) z s = Inr d"
  by (cases "(l, g, z, s)" rule: SimplePendulum_equations.cases) (auto simp: py_div_def)

lemma RotationalInertia_total:
  "I \<noteq> 0 \<Longrightarrow> length z = 2 \<Longrightarrow> \<exists>d. equations (RotationalInertia I torque ic ts) z s = Inr d"
  by (cases "(I, torque, z, s)" rule: RotationalInertia_equations.cases) (auto simp: py_div_def)

lemma spring_mass_damper_returns:
  "\<exists>solution. simulate rk4 spring_mass_damper = Inr (linspace 0 20 1000, solution)"
proof -
  have "\<forall>z s. length z = 2 \<longrightarrow> (\<exists>d. equations spring_mass_damper z s = Inr d)"
    unfolding spring_mass_damper_def using SpringMassDamper_total by blast
  from simulate_rk4_returns [OF this] show ?thesis
    by (simp add: spring_mass_damper_def)
qed

lemma simple_pendulum_returns:
  "\<exists>solution. simulate rk4 simple_pendulum = Inr (linspace 0 20 1000, solution)"
proof -
  have "\<forall>z s. length z = 2 \<longrightarrow> (\<exists>d. equations simple_pendulum z s = Inr d)"
    unfolding simple_pendulum_def using SimplePendulum_total [OF one_neq_zero] by blast
  from simulate_rk4_returns [OF this] show ?thesis
    by (simp add: simple_pendulum_def)
qed

lemma rotational_inertia_returns:
  "\<exists>solution. simulate rk4 rotational_inertia = Inr (linspace 0 20 1000, solution)"
proof -
  have "\<forall>z s. length z = 2 \<longrightarrow> (\<exists>d. equations rotational_inertia z s = Inr d)"
    unfolding rotational_inertia_def using RotationalInertia_total [OF one_neq_zero] by blast
  from simulate_rk4_returns [OF this] show ?thesis
    by (simp add: rotational_inertia_def)
qed

section \<open>Construction\<close>

text \<open>
  Claim C1 says that constructing a SpringMassDamper with \<open>m = 0\<close>, a SimplePendulum
  with \<open>l = 0\<close> or a RotationalInertia with \<open>I = 0\<close>, or with a negative parameter,
  fails at construction time. The constructors of the source validate nothing: at these
  inputs each returns the instance.
\<close>

theorem construction_accepts_invalid_parameters:
  "SpringMassDamper_init 0 (1/2) 2 [1, 0] 20 = Inr (SpringMassDamper 0 (1/2) 2 [1, 0] 20) \<and>
   SimplePendulum_init 0 (981/100) [pi / 4, 0] 20 =
     Inr (SimplePendulum 0 (981/100) [pi / 4, 0] 20) \<and>
   RotationalInertia_init 0 1 [0, 0] 20 = Inr (RotationalInertia 0 1 [0, 0] 20) \<and>
   SpringMassDamper_init (- 1) (1/2) 2 [1, 0] 20 =
     Inr (SpringMassDamper (- 1) (1/2) 2 [1, 0] 20) \<and>
   SimplePendulum_init (- 1) (981/100) [pi / 4, 0] 20 =
     Inr (SimplePendulum (- 1) (981/100) [pi / 4, 0] 20) \<and>
   RotationalInertia_init (- 1) 1 [0, 0] 20 = Inr (RotationalInertia (- 1) 1 [0, 0] 20)"
  by (simp add: SpringMassDamper_init_def SimplePendulum_init_def RotationalInertia_init_def)

text \<open>
  Claim C1, amended: construction never fails, whatever the parameters (zero and negative
  values included): each constructor returns the instance with the parameters stored
  unchanged, and nothing is validated.
\<close>

theorem construction_never_fails:
  "SpringMassDamper_init m c k ic ts = Inr (SpringMassDamper m c k ic ts) \<and>
   SimplePendulum_init l g ic ts = Inr (SimplePendulum l g ic ts) \<and>
   RotationalInertia_init I torque ic ts = Inr (RotationalInertia I torque ic ts)"
  by (simp add: SpringMassDamper_init_def SimplePendulum_init_def RotationalInertia_init_def)

section \<open>The derivative laws\<close>

text \<open>
  Claim C2: for every state \<open>[x, v]\<close>, every time \<open>t\<close> and every SpringMassDamper with
  \<open>m \<noteq> 0\<close>, the derivative function returns exactly \<open>[v, (-c*v - k*x) / m]\<close>.
\<close>

theorem SpringMassDamper_derivative:
  "m \<noteq> 0 \<Longrightarrow>
   equations (SpringMassDamper m c k ic ts) [Num x, Num v] t =
     Inr [Num v, Num ((- c * v - k * x) / m)]"
  by simp

theorem SpringMassDamper_derivative_witness:
  "(1::real) \<noteq> 0 \<and>
   equations (SpringMassDamper 1 (1/2) 2 [1, 0] 20) [Num 1, Num 0] 0 = Inr [Num 0, Num (- 2)]"
  using SpringMassDamper_derivative [of 1 "1/2" 2 "[1, 0]" 20 1 0 0] by simp

text \<open>
  Claim C3: for every state \<open>[theta, omega]\<close>, every time \<open>t\<close> and every SimplePendulum
  with \<open>l \<noteq> 0\<close>, the derivative function returns exactly
  \<open>[omega, -(g / l) * sin theta]\<close>.
\<close>

theorem SimplePendulum_derivative:
  "l \<noteq> 0 \<Longrightarrow>
   equations (SimplePendulum l g ic ts) [Num theta, Num omega] t =
     Inr [Num omega, Num (- (g / l) * sin theta)]"
  by (simp add: py_div_def)

theorem SimplePendulum_derivative_witness:
  "(1::real) \<noteq> 0 \<and>
   equations (SimplePendulum 1 (981/100) [pi / 4, 0] 20) [Num 0, Num 3] 0 = Inr [Num 3, Num 0]"
  using SimplePendulum_derivative [of 1 "981/100" "[pi / 4, 0]" 20 0 3 0] by simp

text \<open>
  Claim C4: for every state \<open>[theta, omega]\<close>, every time \<open>t\<close> and every
  RotationalInertia with \<open>I \<noteq> 0\<close>, the derivative function returns exactly
  \<open>[omega, torque / I]\<close>.
\<close>

theorem RotationalInertia_derivative:
  "I \<noteq> 0 \<Longrightarrow>
   equations (RotationalInertia I torque ic ts) [Num theta, Num omega] t =
     Inr [Num omega, Num (torque / I)]"
  by (simp add: py_div_def)

theorem RotationalInertia_derivative_witness:
  "(1::real) \<noteq> 0 \<and>
   equations (RotationalInertia 1 1 [0, 0] 20) [Num 0, Num 0] 0 = Inr [Num 0, Num 1]"
  using RotationalInertia_derivative [of 1 1 "[0, 0]" 20 0 0 0] by simp

section \<open>The trajectory\<close>

text \<open>
  Claim C5: whenever \<open>simulate\<close> returns a trajectory, its first state is the initial
  condition (as the float64 row the integrator makes of it), for every instance, every
  time span and every solver. The witness runs the reference solver on the driver's
  spring-mass-damper, where \<open>simulate\<close> does return.
\<close>

theorem first_state_is_initial:
  "simulate S self = Inr (time_points, solution) \<Longrightarrow>
   solution \<noteq> [] \<and> hd solution = map Num (initial_conditions self)"
proof -
  assume r: "simulate S self = Inr (time_points, solution)"
  have ne: "linspace 0 (time_span self) 1000 \<noteq> []"
    using linspace_1000_Cons [of "time_span self"] by (metis list.distinct(1))
  from r have "odeint S (equations self) (initial_conditions self)
      (linspace 0 (time_span self) 1000) = Inr solution"
    by (auto simp: simulate_def Let_def bindE_Inr_iff)
  from odeint_first [OF this ne] show ?thesis by auto
qed

theorem first_state_is_initial_witness:
  "\<exists>time_points solution.
     simulate rk4 spring_mass_damper = Inr (time_points, solution) \<and>
     solution \<noteq> [] \<and> hd solution = [Num 1, Num 0]"
proof -
  from spring_mass_damper_returns obtain solution where
    r: "simulate rk4 spring_mass_damper = Inr (linspace 0 20 1000, solution)" by blast
  from first_state_is_initial [OF r] have "solution \<noteq> [] \<and> hd solution = [Num 1, Num 0]"
    by (simp add: spring_mass_damper_def)
  with r show ?thesis by blast
qed

text \<open>
  Claim C6: for an instance with a strictly positive time span, the times returned by
  \<open>simulate\<close> are exactly 1000 values, the \<open>i\<close>-th being \<open>i * time_span / 999\<close>: they
  start at 0, end at \<open>time_span\<close> itself and increase strictly.
\<close>

theorem sample_times:
  assumes "0 < time_span self" and "simulate S self = Inr (time_points, solution)"
  shows "length time_points = 1000 \<and> time_points ! 0 = 0 \<and> time_points ! 999 = time_span self \<and>
         (\<forall>i<1000. time_points ! i = real i * (time_span self / 999)) \<and>
         sorted_wrt (<) time_points"
proof -
  from assms(2) have t: "time_points = linspace 0 (time_span self) 1000"
    by (auto simp: simulate_def Let_def bindE_Inr_iff)
  have len: "length time_points = 1000" by (simp add: t linspace_length)
  have nth: "\<forall>i<1000. time_points ! i = real i * (time_span self / 999)"
    by (simp add: t linspace_1000_nth)
  have "sorted_wrt (<) time_points"
    unfolding sorted_wrt_iff_nth_less
  proof (intro allI impI)
    fix i j assume "i < j" "j < length time_points"
    then have ij: "time_points ! i = real i * (time_span self / 999)"
        "time_points ! j = real j * (time_span self / 999)"
      using nth len by auto
    have "0 < time_span self / 999" using assms(1) by simp
    then have "real i * (time_span self / 999) < real j * (time_span self / 999)"
      using \<open>i < j\<close> by (intro mult_strict_right_mono) simp_all
    then show "time_points ! i < time_points ! j" by (simp only: ij)
  qed
  moreover have "time_points ! 0 = 0"
    using linspace_1000_nth [of 0 "time_span self"] by (simp add: t)
  moreover have "time_points ! 999 = time_span self"
    using linspace_1000_nth [of 999 "time_span self"] by (simp add: t)
  ultimately show ?thesis using len nth by blast
qed

theorem sample_times_witness:
  "\<exists>time_points solution.
     simulate rk4 rotational_inertia = Inr (time_points, solution) \<and>
     (0::real) < 20 \<and> length time_points = 1000 \<and> time_points ! 0 = 0 \<and>
     time_points ! 999 = 20 \<and> time_points ! 1 = 20 / 999 \<and> sorted_wrt (<) time_points"
proof -
  from rotational_inertia_returns obtain solution where
    r: "simulate rk4 rotational_inertia = Inr (linspace 0 20 1000, solution)" by blast
  have "0 < time_span rotational_inertia" by (simp add: rotational_inertia_def)
  from sample_times [OF this r] have
    "length (linspace 0 20 1000) = 1000 \<and> linspace 0 20 1000 ! 0 = 0 \<and>
     linspace 0 20 1000 ! 999 = 20 \<and> linspace 0 20 1000 ! 1 = 20 / 999 \<and>
     sorted_wrt (<) (linspace 0 20 1000)"
    by (simp add: rotational_inertia_def)
  with r show ?thesis by force
qed

text \<open>
  Claim C8: for an instance with a 2-element initial state, every state of a trajectory
  returned by \<open>simulate\<close> has exactly 2 components and the trajectory has 1000 rows,
  with every solver; and whenever the derivative function returns, its argument and its
  result both have 2 components. The witness covers the three instances of the driver,
  on which \<open>simulate\<close> returns with the reference solver.
\<close>

theorem states_have_two_columns:
  assumes "length (initial_conditions self) = 2"
    and "simulate S self = Inr (time_points, solution)"
  shows "length solution = 1000 \<and>
         (\<forall>s\<in>set solution. length s = 2) \<and>
         (\<forall>y t d. equations self y t = Inr d \<longrightarrow> length d = length y \<and> length d = 2)"
proof -
  from assms(2) have "odeint S (equations self) (initial_conditions self)
      (linspace 0 (time_span self) 1000) = Inr solution"
    by (auto simp: simulate_def Let_def bindE_Inr_iff)
  from odeint_rows [OF this] have "length solution = 1000" "\<forall>s\<in>set solution. length s = 2"
    by (simp_all add: linspace_length assms(1))
  moreover have "\<forall>y t d. equations self y t = Inr d \<longrightarrow> length d = length y \<and> length d = 2"
    using equations_dim by fastforce
  ultimately show ?thesis by blast
qed

theorem states_have_two_columns_witness:
  "(\<exists>time_points solution. simulate rk4 spring_mass_damper = Inr (time_points, solution) \<and>
      length (initial_conditions spring_mass_damper) = 2 \<and>
      length solution = 1000 \<and> (\<forall>s\<in>set solution. length s = 2)) \<and>
   (\<exists>time_points solution. simulate rk4 simple_pendulum = Inr (time_points, solution) \<and>
      length (initial_conditions simple_pendulum) = 2 \<and>
      length solution = 1000 \<and> (\<forall>s\<in>set solution. length s = 2)) \<and>
   (\<exists>time_points solution. simulate rk4 rotational_inertia = Inr (time_points, solution) \<and>
      length (initial_conditions rotational_inertia) = 2 \<and>
      length solution = 1000 \<and> (\<forall>s\<in>set solution. length s = 2))"
proof -
  have ic: "length (initial_conditions spring_mass_damper) = 2"
      "length (initial_conditions simple_pendulum) = 2"
      "length (initial_conditions rotational_inertia) = 2"
    by (simp_all add: spring_mass_damper_def simple_pendulum_def rotational_inertia_def)
  from spring_mass_damper_returns simple_pendulum_returns rotational_inertia_returns
  obtain s1 s2 s3 where
    r: "simulate rk4 spring_mass_damper = Inr (linspace 0 20 1000, s1)"
       "simulate rk4 simple_pendulum = Inr (linspace 0 20 1000, s2)"
       "simulate rk4 rotational_inertia = Inr (linspace 0 20 1000, s3)"
    by blast
  show ?thesis
    using states_have_two_columns [OF ic(1) r(1)]
          states_have_two_columns [OF ic(2) r(2)]
          states_have_two_columns [OF ic(3) r(3)]
          r ic
    by blast
qed



end
